theory Spec2Isabelle
  imports Main "HOL-Library.AList" "HOL-Library.Char_ord" "HOL-Library.List_Lexorder"
begin

section \<open>VideoImageConverterTool: the conversion job lifecycle\<close>

text \<open>
  A shallow embedding of \<^verbatim>\<open>tools/video_image_converter/video_image_converter_tool.py\<close>.
  The tool keeps a dictionary \<^verbatim>\<open>pending_conversions\<close> from tokens to job dictionaries,
  validates a submission (\<^verbatim>\<open>execute_tool\<close>), converts on demand (\<^verbatim>\<open>convert_and_save\<close>)
  and removes old or downloaded jobs with their files (\<^verbatim>\<open>cleanup_old_files\<close>).

  Python strings are modelled as \<^typ>\<open>string\<close>: a character is a code point below 256, and
  \<^verbatim>\<open>str.lower\<close>, the white space and the digits of \<^verbatim>\<open>int\<close> are those of this range.
  Exceptions are values of the type \<open>error\<close>; a function that may raise returns
  \<open>error + 'a\<close>, and one that also changes the file system returns the changed
  file system together with the result, so that what was written before a raise stays
  written.
\<close>

subsection \<open>Strings and paths\<close>

type_synonym path = string
type_synonym token = string

text \<open>
  \<^verbatim>\<open>str.lower\<close>: the letters A to Z and the upper-case letters U+00C0 to U+00DE (U+00D7, the
  multiplication sign, is not a letter) move up by 32; every other code point below 256
  stays.
\<close>

definition lower_char :: "char \<Rightarrow> char" where
  "lower_char c =
     (if (CHR ''A'' \<le> c \<and> c \<le> CHR ''Z'')
         \<or> (CHR 0xC0 \<le> c \<and> c \<le> CHR 0xDE \<and> c \<noteq> CHR 0xD7)
      then char_of (of_char c + (32::nat)) else c)"

definition lower :: "string \<Rightarrow> string" where
  "lower s = map lower_char s"

definition endswith :: "string \<Rightarrow> string \<Rightarrow> bool" where
  "endswith s suffix =
     (length suffix \<le> length s \<and> drop (length s - length suffix) s = suffix)"

text \<open>\<^verbatim>\<open>os.path.join(a, b)\<close> on POSIX: an absolute \<open>b\<close> replaces \<open>a\<close>.\<close>

definition os_path_join :: "path \<Rightarrow> string \<Rightarrow> path" where
  "os_path_join a b =
     (if b \<noteq> [] \<and> hd b = CHR ''/'' then b
      else if a = [] \<or> last a = CHR ''/'' then a @ b
      else a @ ''/'' @ b)"

text \<open>Decimal rendering of integers: \<^verbatim>\<open>str(n)\<close> and the format \<^verbatim>\<open>{i:04d}\<close>.\<close>

definition digit_char :: "nat \<Rightarrow> char" where
  "digit_char d = char_of (48 + d)"

fun str_nat :: "nat \<Rightarrow> string" where
  "str_nat n = (if n < 10 then [digit_char n] else str_nat (n div 10) @ [digit_char (n mod 10)])"

declare str_nat.simps [simp del]

definition str_int :: "int \<Rightarrow> string" where
  "str_int i = (if i < 0 then ''-'' @ str_nat (nat (- i)) else str_nat (nat i))"

definition format_04d :: "nat \<Rightarrow> string" where
  "format_04d i = replicate (4 - length (str_nat i)) CHR ''0'' @ str_nat i"

subsection \<open>Exceptions\<close>

datatype error =
    Exception string
  | KeyError string
  | ValueError string
  | FileNotFoundError path
  | FileExistsError path
  | PermissionError path
  | IsADirectoryError path
  | NotADirectoryError path
  | DirectoryNotEmpty path
  | BadZipFile path
  | UnidentifiedImageError path
  | FfmpegError string

text \<open>The exception \<^verbatim>\<open>_images_to_video\<close> raises for an archive without images.\<close>

definition EmptyArchive :: error where
  "EmptyArchive = Exception ''Keine Bilddateien in der ZIP-Datei gefunden''"

text \<open>
  \<^verbatim>\<open>int(s)\<close> on a string: surrounding white space is dropped (tab to carriage return, the
  space, U+0085 and U+00A0), a sign is allowed, then decimal digits follow, with single
  underscores allowed between digits. A literal of more than 4300 digits, leading zeros
  counted, is refused (\<^verbatim>\<open>sys.get_int_max_str_digits()\<close>). Every refusal is a \<^verbatim>\<open>ValueError\<close>.
\<close>

definition is_space :: "char \<Rightarrow> bool" where
  "is_space c =
     (c \<in> set [CHR 0x09, CHR 0x0A, CHR 0x0B, CHR 0x0C, CHR 0x0D, CHR '' '', CHR 0x85, CHR 0xA0])"

definition max_str_digits :: nat where
  "max_str_digits = 4300"

definition is_digit :: "char \<Rightarrow> bool" where
  "is_digit c = (CHR ''0'' \<le> c \<and> c \<le> CHR ''9'')"

definition strip :: "string \<Rightarrow> string" where
  "strip s = rev (dropWhile is_space (rev (dropWhile is_space s)))"

fun digits_ok :: "string \<Rightarrow> bool" where
  "digits_ok [] = False"
| "digits_ok [c] = is_digit c"
| "digits_ok (c # d # cs) =
     (is_digit c \<and> (if d = CHR ''_'' then digits_ok cs else digits_ok (d # cs)))"

definition digits_value :: "string \<Rightarrow> nat" where
  "digits_value s = foldl (\<lambda>acc c. 10 * acc + (of_char c - 48)) 0 (filter is_digit s)"

definition py_int :: "string \<Rightarrow> error + int" where
  "py_int s =
     (let t = strip s;
          (neg, body) = (case t of
                           c # cs \<Rightarrow> if c = CHR ''-'' then (True, cs)
                                     else if c = CHR ''+'' then (False, cs)
                                     else (False, t)
                         | [] \<Rightarrow> (False, t))
      in if digits_ok body \<and> length (filter is_digit body) \<le> max_str_digits
         then Inr (if neg then - int (digits_value body) else int (digits_value body))
         else Inl (ValueError s))"

subsection \<open>Job records and the tool's state\<close>

text \<open>
  A job is the dictionary \<^verbatim>\<open>execute_tool\<close> stores under the token; it is the only writer
  of \<^verbatim>\<open>pending_conversions\<close>, so all nine keys are present. The option values are the
  strings of the submitted form. \<open>timestamp\<close> is \<^verbatim>\<open>datetime.now()\<close> in microseconds.
\<close>

record conversion =
  file_path :: path
  filename :: string
  conversion_type :: string
  fps :: string
  quality :: string
  image_format :: string
  video_format :: string
  timestamp :: int
  downloaded :: bool

text \<open>The user-facing messages of \<^verbatim>\<open>execute_tool\<close>, in the order of the source.\<close>

datatype message =
    MissingInput          \<comment> \<open>"Bitte waehlen Sie eine Datei aus."\<close>
  | FileTooLarge          \<comment> \<open>"Die Datei ist zu gross. Maximale Groesse ist 2GB."\<close>
  | NotAVideoFile         \<comment> \<open>"Bitte waehlen Sie eine Videodatei aus."\<close>
  | NotAZipFile           \<comment> \<open>"Bitte waehlen Sie eine ZIP-Datei mit Bildern aus."\<close>
  | ProcessingError error \<comment> \<open>"Fehler bei der Verarbeitung: " followed by the exception\<close>

text \<open>The HTML fragment of \<^verbatim>\<open>_create_output_html\<close>: its two parameters.\<close>

datatype html = OutputHtml token string

text \<open>
  \<^verbatim>\<open>pending_conversions\<close> is a Python dictionary: an association list in insertion
  order, assigned with \<^const>\<open>AList.update\<close> and popped with \<^const>\<open>AList.delete\<close>.
\<close>

record tool_state =
  pending_conversions :: "(token \<times> conversion) list"
  temp_dir :: path
  error_message :: "message option"
  tool_output :: "html option"

text \<open>
  The parameters of a submission. \<open>in_file\<close> is the upload descriptor, a dictionary
  with the keys \<^verbatim>\<open>file_path\<close> and \<^verbatim>\<open>filename\<close>; the other keys are optional form fields.
\<close>

record input_params =
  in_file :: "(string \<rightharpoonup> string) option"
  in_conversion_type :: "string option"
  in_fps :: "string option"
  in_quality :: "string option"
  in_image_format :: "string option"
  in_video_format :: "string option"

definition getitem :: "(string \<rightharpoonup> string) \<Rightarrow> string \<Rightarrow> error + string" where
  "getitem d k = (case d k of None \<Rightarrow> Inl (KeyError k) | Some v \<Rightarrow> Inr v)"

definition get_default :: "string option \<Rightarrow> string \<Rightarrow> string" where
  "get_default v d = (case v of None \<Rightarrow> d | Some s \<Rightarrow> s)"

subsection \<open>File-name checks\<close>

definition video_extensions :: "string list" where
  "video_extensions =
     [''.mp4'', ''.avi'', ''.mov'', ''.mkv'', ''.wmv'', ''.flv'', ''.webm'', ''.m4v'']"

definition is_video_file :: "string \<Rightarrow> bool" where
  "is_video_file name = list_ex (\<lambda>ext. endswith (lower name) ext) video_extensions"

definition is_zip_file :: "string \<Rightarrow> bool" where
  "is_zip_file name = endswith (lower name) ''.zip''"

definition image_extensions :: "string list" where
  "image_extensions = [''.png'', ''.jpg'', ''.jpeg'', ''.gif'', ''.bmp'', ''.webp'', ''.tiff'']"

definition is_image_file :: "string \<Rightarrow> bool" where
  "is_image_file name = list_ex (\<lambda>ext. endswith (lower name) ext) image_extensions"

subsection \<open>execute_tool\<close>

definition size_limit :: nat where
  "size_limit = 2 * 1024 * 1024 * 1024"

definition video_to_images_label :: string where
  "video_to_images_label = ''Video zu Bildern''"

definition images_to_video_label :: string where
  "images_to_video_label = ''Bilder zu Video''"

text \<open>
  The body of the \<^verbatim>\<open>try\<close> block. \<open>getsize\<close> is \<^verbatim>\<open>os.path.getsize\<close> as the file system
  answers it at the call, \<open>now\<close> the clock and \<open>new_token\<close> the value of
  \<^verbatim>\<open>str(uuid.uuid4())\<close>. The result is the returned boolean and the state; \<open>Inl\<close> is an
  exception leaving the block.
\<close>

definition execute_tool_body ::
  "(path \<Rightarrow> error + nat) \<Rightarrow> int \<Rightarrow> token \<Rightarrow> tool_state \<Rightarrow> input_params
     \<Rightarrow> error + (bool \<times> tool_state)" where
  "execute_tool_body getsize now new_token st ip =
     (case in_file ip of
        None \<Rightarrow> Inr (False, st\<lparr>error_message := Some MissingInput\<rparr>)
      | Some file_info \<Rightarrow>
     (case getitem file_info ''file_path'' of Inl e \<Rightarrow> Inl e | Inr fpath \<Rightarrow>
     (case getitem file_info ''filename'' of Inl e \<Rightarrow> Inl e | Inr fname \<Rightarrow>
     (let ctype = get_default (in_conversion_type ip) ''video_to_images'' in
     (case getsize fpath of Inl e \<Rightarrow> Inl e | Inr sz \<Rightarrow>
      if sz > size_limit then Inr (False, st\<lparr>error_message := Some FileTooLarge\<rparr>)
      else if ctype = ''video_to_images'' \<and> \<not> is_video_file fname
        then Inr (False, st\<lparr>error_message := Some NotAVideoFile\<rparr>)
      else if ctype \<noteq> ''video_to_images'' \<and> ctype = ''images_to_video'' \<and> \<not> is_zip_file fname
        then Inr (False, st\<lparr>error_message := Some NotAZipFile\<rparr>)
      else
        (let job = \<lparr> file_path = fpath, filename = fname, conversion_type = ctype,
                     fps = get_default (in_fps ip) ''10'',
                     quality = get_default (in_quality ip) ''medium'',
                     image_format = get_default (in_image_format ip) ''png'',
                     video_format = get_default (in_video_format ip) ''mp4'',
                     timestamp = now, downloaded = False \<rparr>;
             display = (if ctype = ''video_to_images'' then video_to_images_label
                        else images_to_video_label)
         in Inr (True,
                 st\<lparr>pending_conversions := AList.update new_token job (pending_conversions st),
                    tool_output := Some (OutputHtml new_token display)\<rparr>)))))))"

text \<open>\<^verbatim>\<open>except Exception as e\<close>: the message is set and \<^verbatim>\<open>False\<close> is returned.\<close>

definition execute_tool ::
  "(path \<Rightarrow> error + nat) \<Rightarrow> int \<Rightarrow> token \<Rightarrow> tool_state \<Rightarrow> input_params \<Rightarrow> bool \<times> tool_state" where
  "execute_tool getsize now new_token st ip =
     (case execute_tool_body getsize now new_token st ip of
        Inl e \<Rightarrow> (False, st\<lparr>error_message := Some (ProcessingError e)\<rparr>)
      | Inr r \<Rightarrow> r)"

subsection \<open>The file system and the external libraries\<close>

text \<open>
  Pillow images are kept symbolically: \<open>Pixels w h k\<close> is a decoded picture of the given
  size whose pixel data is identified by \<open>k\<close>, \<open>Resized w h i\<close> is
  \<^verbatim>\<open>i.resize((w, h), Image.Resampling.LANCZOS)\<close> and \<open>ConvertedRGB i\<close> is \<^verbatim>\<open>i.convert("RGB")\<close>.
\<close>

datatype image = Pixels nat nat nat | Resized nat nat image | ConvertedRGB image

fun image_size :: "image \<Rightarrow> nat \<times> nat" where
  "image_size (Pixels w h k) = (w, h)"
| "image_size (Resized w h i) = (w, h)"
| "image_size (ConvertedRGB i) = image_size i"

datatype content = Blob nat | Picture image | Archive "(string \<times> content) list"

datatype log_line =
    ConversionFailed error  \<comment> \<open>"Fehler bei der Konvertierung: ..."\<close>
  | CleanupFailed error     \<comment> \<open>"Fehler beim Aufraeumen von Dateien: ..."\<close>

text \<open>
  The world outside the tool: regular files by path, directories, the files the operating
  system refuses to delete, the calls of \<^verbatim>\<open>os.remove\<close> made so far, and what was printed.
\<close>

record world =
  files :: "(path \<times> content) list"
  dirs :: "path list"
  undeletable :: "path list"
  remove_calls :: "path list"
  printed :: "log_line list"

type_synonym 'a io = "world \<Rightarrow> (error + 'a) \<times> world"

definition io_return :: "'a \<Rightarrow> 'a io" where
  "io_return x w = (Inr x, w)"

definition io_raise :: "error \<Rightarrow> 'a io" where
  "io_raise e w = (Inl e, w)"

definition io_bind :: "'a io \<Rightarrow> ('a \<Rightarrow> 'b io) \<Rightarrow> 'b io" where
  "io_bind m f w = (case m w of (Inl e, w1) \<Rightarrow> (Inl e, w1) | (Inr x, w1) \<Rightarrow> f x w1)"

definition io_lift :: "error + 'a \<Rightarrow> 'a io" where
  "io_lift r w = (r, w)"

definition is_file :: "world \<Rightarrow> path \<Rightarrow> bool" where
  "is_file w p = (map_of (files w) p \<noteq> None)"

definition is_dir :: "world \<Rightarrow> path \<Rightarrow> bool" where
  "is_dir w p = (p \<in> set (dirs w))"

definition os_path_exists :: "world \<Rightarrow> path \<Rightarrow> bool" where
  "os_path_exists w p = (is_file w p \<or> is_dir w p)"

definition os_remove :: "path \<Rightarrow> unit io" where
  "os_remove p w =
     (let w1 = w\<lparr>remove_calls := remove_calls w @ [p]\<rparr>
      in if is_dir w p then (Inl (IsADirectoryError p), w1)
         else if \<not> is_file w p then (Inl (FileNotFoundError p), w1)
         else if p \<in> set (undeletable w) then (Inl (PermissionError p), w1)
         else (Inr (), w1\<lparr>files := AList.delete p (files w)\<rparr>))"

text \<open>\<^verbatim>\<open>os.makedirs(p, exist_ok=True)\<close>.\<close>

definition os_makedirs :: "path \<Rightarrow> unit io" where
  "os_makedirs p w =
     (if is_file w p then (Inl (FileExistsError p), w)
      else (Inr (), w\<lparr>dirs := List.insert p (dirs w)\<rparr>))"

definition child_name :: "path \<Rightarrow> path \<Rightarrow> string option" where
  "child_name d p =
     (let pre = (if d \<noteq> [] \<and> last d = CHR ''/'' then d else d @ ''/'');
          rest = drop (length pre) p
      in if take (length pre) p = pre \<and> rest \<noteq> [] \<and> CHR ''/'' \<notin> set rest
         then Some rest else None)"

definition os_listdir :: "path \<Rightarrow> string list io" where
  "os_listdir d w =
     (if is_file w d then (Inl (NotADirectoryError d), w)
      else if \<not> is_dir w d then (Inl (FileNotFoundError d), w)
      else (Inr (List.map_filter (child_name d) (map fst (files w) @ dirs w)), w))"

definition os_rmdir :: "path \<Rightarrow> unit io" where
  "os_rmdir d w =
     (if is_file w d then (Inl (NotADirectoryError d), w)
      else if \<not> is_dir w d then (Inl (FileNotFoundError d), w)
      else if List.map_filter (child_name d) (map fst (files w) @ dirs w) \<noteq> []
        then (Inl (DirectoryNotEmpty d), w)
      else (Inr (), w\<lparr>dirs := removeAll d (dirs w)\<rparr>))"

text \<open>Pillow: \<^verbatim>\<open>Image.open\<close> and \<^verbatim>\<open>img.save(path, "PNG")\<close>.\<close>

definition image_open :: "path \<Rightarrow> image io" where
  "image_open p w =
     (case map_of (files w) p of
        Some (Picture i) \<Rightarrow> (Inr i, w)
      | Some _ \<Rightarrow> (Inl (UnidentifiedImageError p), w)
      | None \<Rightarrow> if is_dir w p then (Inl (IsADirectoryError p), w)
                else (Inl (FileNotFoundError p), w))"

definition image_save :: "path \<Rightarrow> image \<Rightarrow> unit io" where
  "image_save p i w =
     (if is_dir w p then (Inl (IsADirectoryError p), w)
      else (Inr (), w\<lparr>files := AList.update p (Picture i) (files w)\<rparr>))"

text \<open>
  \<^verbatim>\<open>zipfile.ZipFile(p, 'r')\<close> with its \<^verbatim>\<open>filelist\<close>, and \<^verbatim>\<open>extract\<close>, which drops the empty,
  \<^verbatim>\<open>.\<close> and \<^verbatim>\<open>..\<close> components of a member's name and creates the directories on the way.
\<close>

definition zip_read :: "path \<Rightarrow> (string \<times> content) list io" where
  "zip_read p w =
     (case map_of (files w) p of
        Some (Archive ms) \<Rightarrow> (Inr ms, w)
      | Some _ \<Rightarrow> (Inl (BadZipFile p), w)
      | None \<Rightarrow> if is_dir w p then (Inl (IsADirectoryError p), w)
                else (Inl (FileNotFoundError p), w))"

fun split_slash :: "string \<Rightarrow> string list" where
  "split_slash [] = [[]]"
| "split_slash (c # cs) =
     (if c = CHR ''/'' then [] # split_slash cs
      else (case split_slash cs of [] \<Rightarrow> [[c]] | x # xs \<Rightarrow> (c # x) # xs))"

definition arc_components :: "string \<Rightarrow> string list" where
  "arc_components name = filter (\<lambda>x. x \<noteq> [] \<and> x \<noteq> ''.'' \<and> x \<noteq> ''..'') (split_slash name)"

fun ancestors :: "path \<Rightarrow> string list \<Rightarrow> path list" where
  "ancestors d [] = []"
| "ancestors d [x] = []"
| "ancestors d (x # y # ys) = os_path_join d x # ancestors (os_path_join d x) (y # ys)"

definition zip_extract :: "path \<Rightarrow> string \<times> content \<Rightarrow> unit io" where
  "zip_extract d m w =
     (let comps = arc_components (fst m);
          target = foldl os_path_join d comps;
          parents = ancestors d comps
      in if list_ex (is_file w) parents then (Inl (NotADirectoryError target), w)
         else if is_dir w target then (Inl (IsADirectoryError target), w)
         else (Inr (), w\<lparr>files := AList.update target (snd m) (files w),
                         dirs := fold List.insert parents (dirs w)\<rparr>))"

text \<open>\<^verbatim>\<open>zipfile.ZipFile(p, 'w', ZIP_DEFLATED)\<close> and \<^verbatim>\<open>zipf.write(file, arcname)\<close>.\<close>

definition zip_create :: "path \<Rightarrow> unit io" where
  "zip_create p w =
     (if is_dir w p then (Inl (IsADirectoryError p), w)
      else (Inr (), w\<lparr>files := AList.update p (Archive []) (files w)\<rparr>))"

definition zip_append :: "path \<Rightarrow> string \<times> content \<Rightarrow> world \<Rightarrow> world" where
  "zip_append z m w =
     (case map_of (files w) z of
        Some (Archive ms) \<Rightarrow> w\<lparr>files := AList.update z (Archive (ms @ [m])) (files w)\<rparr>
      | _ \<Rightarrow> w)"

definition zip_write :: "path \<Rightarrow> path \<Rightarrow> string \<Rightarrow> unit io" where
  "zip_write z p arcname w =
     (case map_of (files w) p of
        Some c \<Rightarrow> (Inr (), zip_append z (arcname, c) w)
      | None \<Rightarrow> if is_dir w p then (Inr (), zip_append z (arcname @ ''/'', Blob 0) w)
                else (Inl (FileNotFoundError p), w))"

text \<open>
  The media engine is outside the repository: \<^verbatim>\<open>ffmpeg.run\<close> is a parameter of the model,
  any function from the command and the world to a result and a world. Both calls pass
  \<^verbatim>\<open>overwrite_output=True, quiet=True\<close>.
\<close>

datatype ffmpeg_cmd =
  FfmpegCmd (cmd_input: path) (cmd_input_args: "(string \<times> string) list")
            (cmd_output: path) (cmd_output_args: "(string \<times> string) list")

type_synonym engine = "ffmpeg_cmd \<Rightarrow> unit io"

subsection \<open>_video_to_images\<close>

fun zip_write_frames :: "path \<Rightarrow> path \<Rightarrow> string \<Rightarrow> string list \<Rightarrow> unit io" where
  "zip_write_frames z d fmt [] = io_return ()"
| "zip_write_frames z d fmt (image_file # rest) =
     (if endswith image_file (''.'' @ fmt)
      then io_bind (zip_write z (os_path_join d image_file) image_file)
                   (\<lambda>_. zip_write_frames z d fmt rest)
      else zip_write_frames z d fmt rest)"

fun remove_all :: "path \<Rightarrow> string list \<Rightarrow> unit io" where
  "remove_all d [] = io_return ()"
| "remove_all d (f # rest) = io_bind (os_remove (os_path_join d f)) (\<lambda>_. remove_all d rest)"

definition video_to_images :: "engine \<Rightarrow> path \<Rightarrow> token \<Rightarrow> conversion \<Rightarrow> path io" where
  "video_to_images ffmpeg_run tmp token conv =
     (let input_path = file_path conv in
      io_bind (io_lift (py_int (fps conv))) (\<lambda>fps_n.
      let image_fmt = image_format conv;
          temp_image_dir = os_path_join tmp (''images_'' @ token) in
      io_bind (os_makedirs temp_image_dir) (\<lambda>_.
      let image_pattern = os_path_join temp_image_dir (''frame_%04d.'' @ image_fmt) in
      io_bind (ffmpeg_run (FfmpegCmd input_path [] image_pattern
                 [(''vf'', ''fps='' @ str_int fps_n), (''format'', ''image2'')])) (\<lambda>_.
      let zip_path = os_path_join tmp (''images_'' @ token @ ''.zip'') in
      io_bind (zip_create zip_path) (\<lambda>_.
      io_bind (os_listdir temp_image_dir) (\<lambda>listed.
      io_bind (zip_write_frames zip_path temp_image_dir image_fmt listed) (\<lambda>_.
      io_bind (os_listdir temp_image_dir) (\<lambda>listed_again.
      io_bind (remove_all temp_image_dir listed_again) (\<lambda>_.
      io_bind (os_rmdir temp_image_dir) (\<lambda>_.
      io_return zip_path))))))))))"

subsection \<open>_images_to_video\<close>

text \<open>The loop over \<^verbatim>\<open>zipf.filelist\<close>; the result is \<^verbatim>\<open>image_files\<close>.\<close>

fun extract_images :: "path \<Rightarrow> (string \<times> content) list \<Rightarrow> string list io" where
  "extract_images d [] = io_return []"
| "extract_images d (m # ms) =
     (if is_image_file (fst m)
      then io_bind (zip_extract d m) (\<lambda>_.
           io_bind (extract_images d ms) (\<lambda>names. io_return (fst m # names)))
      else extract_images d ms)"

definition frame_name :: "nat \<Rightarrow> string" where
  "frame_name i = ''frame_'' @ format_04d i @ ''.png''"

text \<open>The loop \<^verbatim>\<open>for i, image_file in enumerate(image_files)\<close>, from index \<open>i\<close> on.\<close>

fun canonical_frames :: "path \<Rightarrow> nat \<times> nat \<Rightarrow> nat \<Rightarrow> string list \<Rightarrow> unit io" where
  "canonical_frames d wh i [] = io_return ()"
| "canonical_frames d wh i (image_file # rest) =
     (let old_path = os_path_join d image_file;
          new_path = os_path_join d (frame_name i) in
      io_bind (image_open old_path) (\<lambda>img.
      let img1 = (if image_size img \<noteq> wh then Resized (fst wh) (snd wh) img else img);
          img2 = ConvertedRGB img1 in
      io_bind (image_save new_path img2) (\<lambda>_.
      io_bind (if old_path \<noteq> new_path then os_remove old_path else io_return ()) (\<lambda>_.
      canonical_frames d wh (Suc i) rest))))"

definition quality_settings :: "string \<Rightarrow> error + (string \<times> string)" where
  "quality_settings q =
     (if q = ''low'' then Inr (''28'', ''ultrafast'')
      else if q = ''medium'' then Inr (''23'', ''medium'')
      else if q = ''high'' then Inr (''18'', ''slow'')
      else Inl (KeyError q))"

text \<open>
  Lines 165 to 192: the image members are extracted, their names are sorted, the first
  one gives the reference size, and every file is saved again under its canonical name.
\<close>

definition extract_and_rename :: "path \<Rightarrow> path \<Rightarrow> unit io" where
  "extract_and_rename temp_image_dir input_path =
     io_bind (zip_read input_path) (\<lambda>filelist.
     io_bind (extract_images temp_image_dir filelist) (\<lambda>image_files.
     if image_files = [] then io_raise EmptyArchive
     else
       (let sorted_files = sort image_files;
            first_image_path = os_path_join temp_image_dir (hd sorted_files) in
        io_bind (image_open first_image_path) (\<lambda>first_img.
        canonical_frames temp_image_dir (image_size first_img) 0 sorted_files))))"

definition images_to_video :: "engine \<Rightarrow> path \<Rightarrow> token \<Rightarrow> conversion \<Rightarrow> path io" where
  "images_to_video ffmpeg_run tmp token conv =
     (let input_path = file_path conv in
      io_bind (io_lift (py_int (fps conv))) (\<lambda>fps_n.
      let video_fmt = video_format conv;
          q = quality conv;
          temp_image_dir = os_path_join tmp (''extracted_'' @ token) in
      io_bind (os_makedirs temp_image_dir) (\<lambda>_.
      io_bind (extract_and_rename temp_image_dir input_path) (\<lambda>_.
      let output_path = os_path_join tmp (''video_'' @ token @ ''.'' @ video_fmt) in
      io_bind (io_lift (quality_settings q)) (\<lambda>settings.
      let pattern = os_path_join temp_image_dir ''frame_%04d.png'' in
      io_bind (ffmpeg_run (FfmpegCmd pattern [(''framerate'', str_int fps_n)] output_path
                 [(''vcodec'', ''libx264''), (''pix_fmt'', ''yuv420p''),
                  (''crf'', fst settings), (''preset'', snd settings)])) (\<lambda>_.
      io_bind (os_listdir temp_image_dir) (\<lambda>listed.
      io_bind (remove_all temp_image_dir listed) (\<lambda>_.
      io_bind (os_rmdir temp_image_dir) (\<lambda>_.
      io_return output_path)))))))))"

subsection \<open>convert_and_save\<close>

text \<open>
  The two early returns, the dispatch on \<^verbatim>\<open>conversion_type\<close> and the \<^verbatim>\<open>except Exception\<close>
  that prints and returns \<^verbatim>\<open>None\<close>. The method assigns nothing to the tool's attributes;
  the state is returned as it was.
\<close>

definition convert_and_save ::
  "engine \<Rightarrow> token \<Rightarrow> tool_state \<Rightarrow> world \<Rightarrow> path option \<times> tool_state \<times> world" where
  "convert_and_save ffmpeg_run token st w =
     (case map_of (pending_conversions st) token of
        None \<Rightarrow> (None, st, w)
      | Some conv \<Rightarrow>
          if downloaded conv then (None, st, w)
          else
            (case (if conversion_type conv = ''video_to_images''
                   then video_to_images ffmpeg_run (temp_dir st) token conv
                   else images_to_video ffmpeg_run (temp_dir st) token conv) w of
               (Inr p, w1) \<Rightarrow> (Some p, st, w1)
             | (Inl e, w1) \<Rightarrow> (None, st, w1\<lparr>printed := printed w1 @ [ConversionFailed e]\<rparr>)))"

subsection \<open>cleanup_old_files\<close>

text \<open>\<^verbatim>\<open>timedelta(hours=1)\<close> in microseconds.\<close>

definition one_hour :: int where
  "one_hour = 60 * 60 * 1000000"

definition minutes :: "int \<Rightarrow> int" where
  "minutes m = m * 60 * 1000000"

definition eligible :: "int \<Rightarrow> conversion \<Rightarrow> bool" where
  "eligible now conv = (now - timestamp conv > one_hour \<or> downloaded conv)"

definition remove_if_exists :: "path \<Rightarrow> unit io" where
  "remove_if_exists p w = (if os_path_exists w p then os_remove p w else (Inr (), w))"

definition artifact_path :: "path \<Rightarrow> token \<Rightarrow> conversion \<Rightarrow> path" where
  "artifact_path tmp token conv =
     (if conversion_type conv = ''video_to_images''
      then os_path_join tmp (''images_'' @ token @ ''.zip'')
      else os_path_join tmp (''video_'' @ token @ ''.'' @ video_format conv))"

text \<open>The body of the \<^verbatim>\<open>try\<close> block of one eligible entry.\<close>

definition cleanup_files :: "path \<Rightarrow> token \<Rightarrow> conversion \<Rightarrow> unit io" where
  "cleanup_files tmp token conv =
     io_bind (remove_if_exists (file_path conv))
             (\<lambda>_. remove_if_exists (artifact_path tmp token conv))"

definition cleanup_entry :: "path \<Rightarrow> token \<Rightarrow> conversion \<Rightarrow> world \<Rightarrow> world" where
  "cleanup_entry tmp token conv w =
     (case cleanup_files tmp token conv w of
        (Inr _, w1) \<Rightarrow> w1
      | (Inl e, w1) \<Rightarrow> w1\<lparr>printed := printed w1 @ [CleanupFailed e]\<rparr>)"

text \<open>The first loop; the result is \<^verbatim>\<open>tokens_to_remove\<close> and the world it leaves.\<close>

fun cleanup_loop ::
  "int \<Rightarrow> path \<Rightarrow> (token \<times> conversion) list \<Rightarrow> world \<Rightarrow> token list \<times> world" where
  "cleanup_loop now tmp [] w = ([], w)"
| "cleanup_loop now tmp ((token, conv) # rest) w =
     (if eligible now conv
      then (let w1 = cleanup_entry tmp token conv w;
                r = cleanup_loop now tmp rest w1
            in (token # fst r, snd r))
      else cleanup_loop now tmp rest w)"

definition cleanup_old_files :: "int \<Rightarrow> tool_state \<Rightarrow> world \<Rightarrow> tool_state \<times> world" where
  "cleanup_old_files now st w =
     (let r = cleanup_loop now (temp_dir st) (pending_conversions st) w
      in (st\<lparr>pending_conversions := fold AList.delete (fst r) (pending_conversions st)\<rparr>,
          snd r))"

subsection \<open>An example environment\<close>

text \<open>
  A media engine to run the model on: it fills a \<^verbatim>\<open>%04d\<close> output pattern with two frames,
  numbered from 1, and writes any other output as one file.
\<close>

fun expand_pattern :: "string \<Rightarrow> nat \<Rightarrow> string" where
  "expand_pattern [] n = []"
| "expand_pattern (c # cs) n =
     (if take 4 (c # cs) = ''%04d'' then format_04d n @ drop 3 cs
      else c # expand_pattern cs n)"

definition example_ffmpeg :: engine where
  "example_ffmpeg cmd w =
     (let out = cmd_output cmd in
      if expand_pattern out 1 \<noteq> out
      then (Inr (), w\<lparr>files := AList.update (expand_pattern out 2) (Picture (Pixels 4 4 2))
                          (AList.update (expand_pattern out 1) (Picture (Pixels 4 4 1))
                             (files w))\<rparr>)
      else (Inr (), w\<lparr>files := AList.update out (Blob 1) (files w)\<rparr>))"

definition example_job ::
  "path \<Rightarrow> string \<Rightarrow> string \<Rightarrow> string \<Rightarrow> int \<Rightarrow> bool \<Rightarrow> conversion" where
  "example_job p name ctype fps_str created consumed =
     \<lparr> file_path = p, filename = name, conversion_type = ctype, fps = fps_str,
       quality = ''medium'', image_format = ''png'', video_format = ''mp4'',
       timestamp = created, downloaded = consumed \<rparr>"

definition example_state :: "(token \<times> conversion) list \<Rightarrow> tool_state" where
  "example_state jobs =
     \<lparr> pending_conversions = jobs, temp_dir = ''/tmp'', error_message = None,
       tool_output = None \<rparr>"

definition example_world :: "(path \<times> content) list \<Rightarrow> path list \<Rightarrow> world" where
  "example_world fs locked =
     \<lparr> files = fs, dirs = [''/tmp'', ''/up''], undeletable = locked, remove_calls = [],
       printed = [] \<rparr>"

definition example_input :: "path \<Rightarrow> string \<Rightarrow> string option \<Rightarrow> string option \<Rightarrow> input_params" where
  "example_input p name ctype fps_str =
     \<lparr> in_file = Some [''file_path'' \<mapsto> p, ''filename'' \<mapsto> name],
       in_conversion_type = ctype, in_fps = fps_str, in_quality = None,
       in_image_format = None, in_video_format = None \<rparr>"

section \<open>Properties\<close>

subsection \<open>Auxiliary facts about the sweep\<close>

lemma cleanup_loop_tokens:
  "fst (cleanup_loop now tmp ps w) = map fst (filter (\<lambda>(t, c). eligible now c) ps)"
  by (induction ps arbitrary: w) (auto simp: Let_def)

lemma fold_delete_filter:
  "fold AList.delete ts ps = filter (\<lambda>(t, c). t \<notin> set ts) ps"
proof (induction ts arbitrary: ps)
  case Nil
  then show ?case by simp
next
  case (Cons t ts)
  have "fold AList.delete (t # ts) ps = filter (\<lambda>(t', c). t' \<notin> set ts) (AList.delete t ps)"
    by (simp add: Cons.IH)
  also have "\<dots> = filter (\<lambda>(t', c). t' \<notin> set (t # ts)) ps"
    unfolding AList.delete_eq filter_filter by (rule filter_cong) auto
  finally show ?case .
qed

lemma distinct_key_eligible:
  assumes "distinct (map fst ps)" and "(t, c) \<in> set ps"
  shows "t \<in> fst ` {x \<in> set ps. case x of (t', c') \<Rightarrow> eligible now c'} \<longleftrightarrow> eligible now c"
proof
  assume "t \<in> fst ` {x \<in> set ps. case x of (t', c') \<Rightarrow> eligible now c'}"
  then obtain c' where in': "(t, c') \<in> set ps" and el: "eligible now c'"
    by auto
  from assms in' have "c' = c"
    by (meson eq_key_imp_eq_value)
  with el show "eligible now c" by simp
next
  assume "eligible now c"
  with assms(2) show "t \<in> fst ` {x \<in> set ps. case x of (t', c') \<Rightarrow> eligible now c'}"
    by force
qed

lemma cleanup_pending:
  assumes "distinct (map fst (pending_conversions st))"
  shows "pending_conversions (fst (cleanup_old_files now st w))
           = filter (\<lambda>(t, c). \<not> eligible now c) (pending_conversions st)"
proof -
  have "filter (\<lambda>(t, c). t \<notin> set (map fst (filter (\<lambda>(t, c). eligible now c) (pending_conversions st))))
          (pending_conversions st)
        = filter (\<lambda>(t, c). \<not> eligible now c) (pending_conversions st)"
    by (rule filter_cong) (use distinct_key_eligible [OF assms] in auto)
  then show ?thesis
    by (simp add: cleanup_old_files_def Let_def cleanup_loop_tokens fold_delete_filter)
qed

lemma map_of_filter_distinct:
  assumes "distinct (map fst ps)" and "(t, c) \<in> set ps"
  shows "map_of (filter (\<lambda>(t, c). P c) ps) t = (if P c then Some c else None)"
proof (cases "P c")
  case True
  have "distinct (map fst (filter (\<lambda>(t, c). P c) ps))"
    using assms(1) by (simp add: distinct_map_filter)
  moreover have "(t, c) \<in> set (filter (\<lambda>(t, c). P c) ps)"
    using assms(2) True by simp
  ultimately show ?thesis
    using True by (simp add: map_of_eq_Some_iff)
next
  case False
  have "t \<notin> fst ` set (filter (\<lambda>(t, c). P c) ps)"
  proof
    assume "t \<in> fst ` set (filter (\<lambda>(t, c). P c) ps)"
    then obtain c' where "(t, c') \<in> set ps" and p: "P c'" by auto
    with assms have "c' = c" by (meson eq_key_imp_eq_value)
    with p False show False by simp
  qed
  then show ?thesis
    using False by (simp add: map_of_eq_None_iff)
qed

lemma os_remove_calls:
  "remove_calls (snd (os_remove p w)) = remove_calls w @ [p]"
  by (simp add: os_remove_def Let_def)

lemma os_remove_dirs:
  "dirs (snd (os_remove p w)) = dirs w"
  by (simp add: os_remove_def Let_def)

lemma os_remove_other_file:
  "q \<noteq> p \<Longrightarrow> map_of (files (snd (os_remove p w))) q = map_of (files w) q"
  by (simp add: os_remove_def Let_def delete_conv')

lemma remove_if_exists_calls:
  "set (remove_calls w) \<subseteq> set (remove_calls (snd (remove_if_exists p w)))"
  by (auto simp: remove_if_exists_def os_remove_calls)

lemma remove_if_exists_attempt:
  "os_path_exists w p \<Longrightarrow> p \<in> set (remove_calls (snd (remove_if_exists p w)))"
  by (simp add: remove_if_exists_def os_remove_calls)

lemma remove_if_exists_keeps:
  assumes "os_path_exists w q"
  shows "os_path_exists (snd (remove_if_exists p w)) q
         \<or> q \<in> set (remove_calls (snd (remove_if_exists p w)))"
proof (cases "os_path_exists w p")
  case False
  with assms show ?thesis by (simp add: remove_if_exists_def)
next
  case True
  show ?thesis
  proof (cases "q = p")
    case True
    with \<open>os_path_exists w p\<close> show ?thesis
      by (simp add: remove_if_exists_def os_remove_calls)
  next
    case False
    with assms True show ?thesis
      by (simp add: remove_if_exists_def os_path_exists_def is_file_def is_dir_def
          os_remove_dirs os_remove_other_file)
  qed
qed

lemma cleanup_files_calls:
  "set (remove_calls w) \<subseteq> set (remove_calls (snd (cleanup_files tmp t c w)))"
proof (cases "remove_if_exists (file_path c) w")
  case (Pair r w1)
  have "set (remove_calls w) \<subseteq> set (remove_calls w1)"
    using remove_if_exists_calls [of w "file_path c"] Pair by simp
  moreover have "set (remove_calls w1)
      \<subseteq> set (remove_calls (snd (remove_if_exists (artifact_path tmp t c) w1)))"
    by (rule remove_if_exists_calls)
  ultimately show ?thesis
    using Pair by (cases r) (auto simp: cleanup_files_def io_bind_def)
qed

lemma cleanup_files_attempt:
  assumes "os_path_exists w (file_path c)"
  shows "file_path c \<in> set (remove_calls (snd (cleanup_files tmp t c w)))"
proof (cases "remove_if_exists (file_path c) w")
  case (Pair r w1)
  have "file_path c \<in> set (remove_calls w1)"
    using remove_if_exists_attempt [OF assms] Pair by simp
  moreover have "set (remove_calls w1)
      \<subseteq> set (remove_calls (snd (remove_if_exists (artifact_path tmp t c) w1)))"
    by (rule remove_if_exists_calls)
  ultimately show ?thesis
    using Pair by (cases r) (auto simp: cleanup_files_def io_bind_def)
qed

lemma cleanup_files_keeps:
  assumes "os_path_exists w q"
  shows "os_path_exists (snd (cleanup_files tmp t c w)) q
         \<or> q \<in> set (remove_calls (snd (cleanup_files tmp t c w)))"
proof (cases "remove_if_exists (file_path c) w")
  case (Pair r w1)
  have first: "os_path_exists w1 q \<or> q \<in> set (remove_calls w1)"
    using remove_if_exists_keeps [OF assms, of "file_path c"] Pair by simp
  show ?thesis
  proof (cases r)
    case (Inl e)
    with Pair first show ?thesis by (simp add: cleanup_files_def io_bind_def)
  next
    case (Inr u)
    have run: "cleanup_files tmp t c w = remove_if_exists (artifact_path tmp t c) w1"
      using Pair Inr by (simp add: cleanup_files_def io_bind_def)
    from first show ?thesis
    proof
      assume "os_path_exists w1 q"
      then show ?thesis
        unfolding run by (rule remove_if_exists_keeps)
    next
      assume "q \<in> set (remove_calls w1)"
      then show ?thesis
        unfolding run using remove_if_exists_calls [of w1 "artifact_path tmp t c"] by blast
    qed
  qed
qed

lemma cleanup_entry_world:
  "remove_calls (cleanup_entry tmp t c w) = remove_calls (snd (cleanup_files tmp t c w))"
  "os_path_exists (cleanup_entry tmp t c w) q = os_path_exists (snd (cleanup_files tmp t c w)) q"
  by (auto simp: cleanup_entry_def os_path_exists_def is_file_def is_dir_def
      split: prod.splits sum.splits)

lemma cleanup_loop_calls:
  "set (remove_calls w) \<subseteq> set (remove_calls (snd (cleanup_loop now tmp ps w)))"
proof (induction ps arbitrary: w)
  case Nil
  then show ?case by simp
next
  case (Cons x ps)
  obtain t c where x: "x = (t, c)" by (cases x)
  show ?case
  proof (cases "eligible now c")
    case True
    have "set (remove_calls w) \<subseteq> set (remove_calls (cleanup_entry tmp t c w))"
      by (simp add: cleanup_entry_world cleanup_files_calls)
    also have "\<dots> \<subseteq> set (remove_calls (snd (cleanup_loop now tmp ps (cleanup_entry tmp t c w))))"
      by (rule Cons.IH)
    finally show ?thesis
      using True by (simp add: x Let_def)
  next
    case False
    then show ?thesis using Cons.IH [of w] by (simp add: x)
  qed
qed

lemma cleanup_loop_attempts:
  assumes "(t, c) \<in> set ps" and "eligible now c"
    and "os_path_exists w (file_path c) \<or> file_path c \<in> set (remove_calls w)"
  shows "file_path c \<in> set (remove_calls (snd (cleanup_loop now tmp ps w)))"
  using assms
proof (induction ps arbitrary: w)
  case Nil
  then show ?case by simp
next
  case (Cons x ps)
  obtain t' c' where x: "x = (t', c')" by (cases x)
  show ?case
  proof (cases "eligible now c'")
    case False
    with Cons.prems have "(t, c) \<in> set ps" by (auto simp: x)
    then show ?thesis
      using False Cons.IH [OF _ Cons.prems(2,3)] by (simp add: x)
  next
    case True
    define w1 where "w1 = cleanup_entry tmp t' c' w"
    have run: "snd (cleanup_loop now tmp (x # ps) w) = snd (cleanup_loop now tmp ps w1)"
      using True by (simp add: x Let_def w1_def)
    have later: "os_path_exists w1 (file_path c) \<or> file_path c \<in> set (remove_calls w1)"
      using Cons.prems(3)
    proof
      assume "os_path_exists w (file_path c)"
      then show ?thesis
        unfolding w1_def cleanup_entry_world by (rule cleanup_files_keeps)
    next
      assume "file_path c \<in> set (remove_calls w)"
      then show ?thesis
        unfolding w1_def cleanup_entry_world using cleanup_files_calls [of w tmp t' c'] by blast
    qed
    show ?thesis
    proof (cases "(t, c) \<in> set ps")
      case True
      then show ?thesis
        unfolding run using Cons.prems(2) later by (rule Cons.IH)
    next
      case False
      with Cons.prems(1) have same: "c' = c" by (simp add: x)
      have "file_path c \<in> set (remove_calls w1)"
        using Cons.prems(3)
      proof
        assume "os_path_exists w (file_path c)"
        then show ?thesis
          unfolding w1_def cleanup_entry_world same by (rule cleanup_files_attempt)
      next
        assume "file_path c \<in> set (remove_calls w)"
        then show ?thesis
          unfolding w1_def cleanup_entry_world using cleanup_files_calls [of w tmp t' c'] by blast
      qed
      then show ?thesis
        unfolding run using cleanup_loop_calls [of w1 now tmp ps] by blast
    qed
  qed
qed

lemma cleanup_files_source_fails:
  assumes "is_file w (file_path c)" and "\<not> is_dir w (file_path c)"
    and "file_path c \<in> set (undeletable w)"
  shows "cleanup_files tmp t c w
     = (Inl (PermissionError (file_path c)), w\<lparr>remove_calls := remove_calls w @ [file_path c]\<rparr>)"
  using assms
  by (simp add: cleanup_files_def io_bind_def remove_if_exists_def os_path_exists_def
      os_remove_def Let_def)

subsection \<open>convert_and_save: nothing to deliver\<close>

text \<open>
  Claim C3. For a token that is not in \<^verbatim>\<open>pending_conversions\<close>, and for a token whose job has
  \<^verbatim>\<open>downloaded\<close> set, \<^verbatim>\<open>convert_and_save\<close> returns \<^verbatim>\<open>None\<close>; no exception reaches the caller,
  and neither the tool's state nor the world changes (nothing is converted or printed).
\<close>

theorem convert_and_save_nothing_to_deliver:
  "map_of (pending_conversions st) token = None \<or>
   (\<exists>conv. map_of (pending_conversions st) token = Some conv \<and> downloaded conv)
   \<Longrightarrow> convert_and_save ffmpeg_run token st w = (None, st, w)"
  by (auto simp: convert_and_save_def)

theorem convert_and_save_nothing_to_deliver_witness:
  "convert_and_save example_ffmpeg ''unknown''
     (example_state [(''T1'', example_job ''/up/clip.mp4'' ''clip.mp4'' ''video_to_images'' ''10'' 0 False)])
     (example_world [(''/up/clip.mp4'', Blob 100)] [])
   = (None,
      example_state [(''T1'', example_job ''/up/clip.mp4'' ''clip.mp4'' ''video_to_images'' ''10'' 0 False)],
      example_world [(''/up/clip.mp4'', Blob 100)] [])
   \<and> convert_and_save example_ffmpeg ''T1''
     (example_state [(''T1'', example_job ''/up/clip.mp4'' ''clip.mp4'' ''video_to_images'' ''10'' 0 True)])
     (example_world [(''/up/clip.mp4'', Blob 100)] [])
   = (None,
      example_state [(''T1'', example_job ''/up/clip.mp4'' ''clip.mp4'' ''video_to_images'' ''10'' 0 True)],
      example_world [(''/up/clip.mp4'', Blob 100)] [])"
proof -
  have a: "map_of (pending_conversions
      (example_state [(''T1'', example_job ''/up/clip.mp4'' ''clip.mp4'' ''video_to_images'' ''10'' 0 False)]))
      ''unknown'' = None"
    by (simp add: example_state_def)
  have b: "\<exists>conv. map_of (pending_conversions
      (example_state [(''T1'', example_job ''/up/clip.mp4'' ''clip.mp4'' ''video_to_images'' ''10'' 0 True)]))
      ''T1'' = Some conv \<and> downloaded conv"
    by (simp add: example_state_def example_job_def)
  show ?thesis
    using convert_and_save_nothing_to_deliver [OF disjI1, OF a]
          convert_and_save_nothing_to_deliver [OF disjI2, OF b]
    by simp
qed

subsection \<open>execute_tool: the size limit\<close>

lemma example_video_name: "is_video_file ''clip.mp4''"
  by code_simp

text \<open>
  Claim C4. For a submission whose file is there with size \<open>sz\<close>: if \<open>sz\<close> is greater than
  \<open>2 * 1024 ^ 3\<close>, \<^verbatim>\<open>execute_tool\<close> returns \<^verbatim>\<open>False\<close>, sets the message "file too large" and
  stores no job; if \<open>sz\<close> is exactly \<open>2 * 1024 ^ 3\<close> and the file name fits the conversion type,
  it returns \<^verbatim>\<open>True\<close> and stores the job under the new token.
\<close>

theorem execute_tool_size_limit:
  assumes "in_file ip = Some fi" and "fi ''file_path'' = Some p" and "fi ''filename'' = Some name"
    and "getsize p = Inr sz"
  shows "(2 * 1024 ^ 3 < sz \<longrightarrow>
            execute_tool getsize now new_token st ip
              = (False, st\<lparr>error_message := Some FileTooLarge\<rparr>))
       \<and> (sz = 2 * 1024 ^ 3
            \<and> (get_default (in_conversion_type ip) ''video_to_images'' = ''video_to_images''
                  \<longrightarrow> is_video_file name)
            \<and> (get_default (in_conversion_type ip) ''video_to_images'' = ''images_to_video''
                  \<longrightarrow> is_zip_file name)
          \<longrightarrow> fst (execute_tool getsize now new_token st ip)
              \<and> (\<exists>job. map_of (pending_conversions (snd (execute_tool getsize now new_token st ip)))
                     new_token = Some job \<and> file_path job = p \<and> \<not> downloaded job))"
  using assms
  by (auto simp: execute_tool_def execute_tool_body_def getitem_def size_limit_def Let_def
      update_Some_unfold)

theorem execute_tool_size_limit_witness:
  "execute_tool (\<lambda>_. Inr (2 * 1024 ^ 3 + 1)) 0 ''T1'' (example_state [])
      (example_input ''/up/clip.mp4'' ''clip.mp4'' None None)
     = (False, (example_state [])\<lparr>error_message := Some FileTooLarge\<rparr>)
   \<and> fst (execute_tool (\<lambda>_. Inr (2 * 1024 ^ 3)) 0 ''T1'' (example_state [])
      (example_input ''/up/clip.mp4'' ''clip.mp4'' None None))"
  using execute_tool_size_limit [of "example_input ''/up/clip.mp4'' ''clip.mp4'' None None"
        "[''file_path'' \<mapsto> ''/up/clip.mp4'', ''filename'' \<mapsto> ''clip.mp4'']"
        "''/up/clip.mp4''" "''clip.mp4''" "\<lambda>_. Inr (2 * 1024 ^ 3 + 1)" "2 * 1024 ^ 3 + 1"
        0 "''T1''" "example_state []"]
      execute_tool_size_limit [of "example_input ''/up/clip.mp4'' ''clip.mp4'' None None"
        "[''file_path'' \<mapsto> ''/up/clip.mp4'', ''filename'' \<mapsto> ''clip.mp4'']"
        "''/up/clip.mp4''" "''clip.mp4''" "\<lambda>_. Inr (2 * 1024 ^ 3)" "2 * 1024 ^ 3"
        0 "''T1''" "example_state []"]
      example_video_name
  by (simp add: example_input_def get_default_def)

subsection \<open>cleanup_old_files: which entries go\<close>

text \<open>
  Claim C5. \<^verbatim>\<open>cleanup_old_files\<close> keeps exactly the entries that are neither downloaded nor
  older than one hour, in their order. So an entry that is not downloaded is gone at 61
  minutes after its timestamp and still there at 59 minutes, and a downloaded entry is gone
  even when the sweep runs at its timestamp. The keys of the dictionary are distinct.
\<close>

theorem cleanup_old_files_removes_exactly:
  assumes "distinct (map fst (pending_conversions st))"
  shows "pending_conversions (fst (cleanup_old_files now st w))
           = filter (\<lambda>(t, c). \<not> (downloaded c \<or> now - timestamp c > 60 * 60 * 1000000))
               (pending_conversions st)
       \<and> (\<forall>(t, c) \<in> set (pending_conversions st).
            (\<not> downloaded c \<and> now = timestamp c + minutes 61 \<longrightarrow>
               map_of (pending_conversions (fst (cleanup_old_files now st w))) t = None)
          \<and> (\<not> downloaded c \<and> now = timestamp c + minutes 59 \<longrightarrow>
               map_of (pending_conversions (fst (cleanup_old_files now st w))) t = Some c)
          \<and> (downloaded c \<and> now = timestamp c \<longrightarrow>
               map_of (pending_conversions (fst (cleanup_old_files now st w))) t = None))"
proof -
  have el: "eligible now c \<longleftrightarrow> downloaded c \<or> now - timestamp c > 60 * 60 * 1000000" for c
    by (auto simp: eligible_def one_hour_def)
  have store: "pending_conversions (fst (cleanup_old_files now st w))
           = filter (\<lambda>(t, c). \<not> eligible now c) (pending_conversions st)"
    by (rule cleanup_pending [OF assms])
  have look: "map_of (pending_conversions (fst (cleanup_old_files now st w))) t
                = (if \<not> eligible now c then Some c else None)"
    if "(t, c) \<in> set (pending_conversions st)" for t c
    unfolding store by (rule map_of_filter_distinct [OF assms that])
  show ?thesis
  proof (intro conjI ballI)
    show "pending_conversions (fst (cleanup_old_files now st w))
           = filter (\<lambda>(t, c). \<not> (downloaded c \<or> now - timestamp c > 60 * 60 * 1000000))
               (pending_conversions st)"
      by (simp add: store el)
  next
    fix x assume "x \<in> set (pending_conversions st)"
    then show "case x of (t, c) \<Rightarrow>
            (\<not> downloaded c \<and> now = timestamp c + minutes 61 \<longrightarrow>
               map_of (pending_conversions (fst (cleanup_old_files now st w))) t = None)
          \<and> (\<not> downloaded c \<and> now = timestamp c + minutes 59 \<longrightarrow>
               map_of (pending_conversions (fst (cleanup_old_files now st w))) t = Some c)
          \<and> (downloaded c \<and> now = timestamp c \<longrightarrow>
               map_of (pending_conversions (fst (cleanup_old_files now st w))) t = None)"
    proof -
      obtain t c where Pair: "x = (t, c)" by (cases x)
      with \<open>x \<in> set (pending_conversions st)\<close>
      have "map_of (pending_conversions (fst (cleanup_old_files now st w))) t
                = (if \<not> eligible now c then Some c else None)"
        by (simp add: look)
      then show ?thesis
        unfolding Pair by (auto simp: el minutes_def)
    qed
  qed
qed

theorem cleanup_old_files_removes_exactly_witness:
  "distinct (map fst (pending_conversions (example_state
       [(''A'', example_job ''/up/a.mp4'' ''a.mp4'' ''video_to_images'' ''10'' 0 False),
        (''B'', example_job ''/up/b.zip'' ''b.zip'' ''images_to_video'' ''10'' (minutes 2) False),
        (''C'', example_job ''/up/c.mp4'' ''c.mp4'' ''video_to_images'' ''10'' (minutes 61) True)])))
   \<and> pending_conversions (fst (cleanup_old_files (minutes 61) (example_state
       [(''A'', example_job ''/up/a.mp4'' ''a.mp4'' ''video_to_images'' ''10'' 0 False),
        (''B'', example_job ''/up/b.zip'' ''b.zip'' ''images_to_video'' ''10'' (minutes 2) False),
        (''C'', example_job ''/up/c.mp4'' ''c.mp4'' ''video_to_images'' ''10'' (minutes 61) True)])
       (example_world [] [])))
     = [(''B'', example_job ''/up/b.zip'' ''b.zip'' ''images_to_video'' ''10'' (minutes 2) False)]"
  using cleanup_old_files_removes_exactly [of "example_state
       [(''A'', example_job ''/up/a.mp4'' ''a.mp4'' ''video_to_images'' ''10'' 0 False),
        (''B'', example_job ''/up/b.zip'' ''b.zip'' ''images_to_video'' ''10'' (minutes 2) False),
        (''C'', example_job ''/up/c.mp4'' ''c.mp4'' ''video_to_images'' ''10'' (minutes 61) True)]"
       "minutes 61" "example_world [] []"]
  by (simp add: example_state_def example_job_def minutes_def)

subsection \<open>cleanup_old_files: failing deletions\<close>

text \<open>
  Claim C6, as the code has it. Whatever happens to the deletions, every eligible entry
  leaves \<^verbatim>\<open>pending_conversions\<close>, and the sweep goes on to the entries that follow: for every
  eligible entry whose source file exists when the sweep starts, \<^verbatim>\<open>os.remove\<close> is called on
  that file. Both deletions of an entry are in one \<^verbatim>\<open>try\<close> block, so when the deletion of the
  source file fails, the block is left with only that one call made: the artifact of that
  entry is not attempted.
\<close>

theorem cleanup_failure_is_not_fatal:
  assumes "distinct (map fst (pending_conversions st))"
  shows "pending_conversions (fst (cleanup_old_files now st w))
           = filter (\<lambda>(t, c). \<not> eligible now c) (pending_conversions st)
       \<and> (\<forall>(t, c) \<in> set (pending_conversions st).
             eligible now c \<and> os_path_exists w (file_path c) \<longrightarrow>
             file_path c \<in> set (remove_calls (snd (cleanup_old_files now st w))))
       \<and> (\<forall>(t, c) \<in> set (pending_conversions st).
             is_file w (file_path c) \<and> \<not> is_dir w (file_path c)
               \<and> file_path c \<in> set (undeletable w) \<longrightarrow>
             cleanup_files (temp_dir st) t c w
               = (Inl (PermissionError (file_path c)),
                  w\<lparr>remove_calls := remove_calls w @ [file_path c]\<rparr>))"
proof (intro conjI ballI)
  show "pending_conversions (fst (cleanup_old_files now st w))
           = filter (\<lambda>(t, c). \<not> eligible now c) (pending_conversions st)"
    by (rule cleanup_pending [OF assms])
next
  fix x assume x: "x \<in> set (pending_conversions st)"
  obtain t c where tc: "x = (t, c)" by (cases x)
  have "file_path c \<in> set (remove_calls (snd (cleanup_old_files now st w)))"
    if "eligible now c" and "os_path_exists w (file_path c)"
    using cleanup_loop_attempts [of t c "pending_conversions st" now w "temp_dir st"] x that
    by (simp add: tc cleanup_old_files_def Let_def)
  then show "case x of (t, c) \<Rightarrow>
             eligible now c \<and> os_path_exists w (file_path c) \<longrightarrow>
             file_path c \<in> set (remove_calls (snd (cleanup_old_files now st w)))"
    by (simp add: tc)
next
  fix x assume x: "x \<in> set (pending_conversions st)"
  obtain t c where tc: "x = (t, c)" by (cases x)
  show "case x of (t, c) \<Rightarrow>
             is_file w (file_path c) \<and> \<not> is_dir w (file_path c)
               \<and> file_path c \<in> set (undeletable w) \<longrightarrow>
             cleanup_files (temp_dir st) t c w
               = (Inl (PermissionError (file_path c)),
                  w\<lparr>remove_calls := remove_calls w @ [file_path c]\<rparr>)"
    using cleanup_files_source_fails [of w c "temp_dir st" t] by (simp add: tc)
qed

theorem cleanup_failure_is_not_fatal_witness:
  "pending_conversions (fst (cleanup_old_files (minutes 61) (example_state
       [(''A'', example_job ''/up/a.mp4'' ''a.mp4'' ''video_to_images'' ''10'' 0 False),
        (''B'', example_job ''/up/b.zip'' ''b.zip'' ''images_to_video'' ''10'' 0 False)])
       (example_world [(''/up/a.mp4'', Blob 100), (''/tmp/images_A.zip'', Archive []),
                       (''/up/b.zip'', Archive []), (''/tmp/video_B.mp4'', Blob 1)]
                      [''/up/a.mp4''])))
     = []
   \<and> ''/up/a.mp4'' \<in> set (remove_calls (snd (cleanup_old_files (minutes 61) (example_state
       [(''A'', example_job ''/up/a.mp4'' ''a.mp4'' ''video_to_images'' ''10'' 0 False),
        (''B'', example_job ''/up/b.zip'' ''b.zip'' ''images_to_video'' ''10'' 0 False)])
       (example_world [(''/up/a.mp4'', Blob 100), (''/tmp/images_A.zip'', Archive []),
                       (''/up/b.zip'', Archive []), (''/tmp/video_B.mp4'', Blob 1)]
                      [''/up/a.mp4'']))))
   \<and> ''/up/b.zip'' \<in> set (remove_calls (snd (cleanup_old_files (minutes 61) (example_state
       [(''A'', example_job ''/up/a.mp4'' ''a.mp4'' ''video_to_images'' ''10'' 0 False),
        (''B'', example_job ''/up/b.zip'' ''b.zip'' ''images_to_video'' ''10'' 0 False)])
       (example_world [(''/up/a.mp4'', Blob 100), (''/tmp/images_A.zip'', Archive []),
                       (''/up/b.zip'', Archive []), (''/tmp/video_B.mp4'', Blob 1)]
                      [''/up/a.mp4'']))))
   \<and> cleanup_files ''/tmp'' ''A''
        (example_job ''/up/a.mp4'' ''a.mp4'' ''video_to_images'' ''10'' 0 False)
        (example_world [(''/up/a.mp4'', Blob 100), (''/tmp/images_A.zip'', Archive []),
                       (''/up/b.zip'', Archive []), (''/tmp/video_B.mp4'', Blob 1)]
                      [''/up/a.mp4''])
     = (Inl (PermissionError ''/up/a.mp4''),
        (example_world [(''/up/a.mp4'', Blob 100), (''/tmp/images_A.zip'', Archive []),
                       (''/up/b.zip'', Archive []), (''/tmp/video_B.mp4'', Blob 1)]
                      [''/up/a.mp4''])\<lparr>remove_calls := [''/up/a.mp4'']\<rparr>)"
  using cleanup_failure_is_not_fatal [of "example_state
       [(''A'', example_job ''/up/a.mp4'' ''a.mp4'' ''video_to_images'' ''10'' 0 False),
        (''B'', example_job ''/up/b.zip'' ''b.zip'' ''images_to_video'' ''10'' 0 False)]"
       "minutes 61"
       "example_world [(''/up/a.mp4'', Blob 100), (''/tmp/images_A.zip'', Archive []),
                       (''/up/b.zip'', Archive []), (''/tmp/video_B.mp4'', Blob 1)]
                      [''/up/a.mp4'']"]
  by (simp add: example_state_def example_job_def example_world_def minutes_def eligible_def
      one_hour_def os_path_exists_def is_file_def is_dir_def)

text \<open>
  Claim C6 as stated fails: the source file of an eligible job cannot be deleted, its
  archive \<^verbatim>\<open>/tmp/images_A.zip\<close> exists, and the only call of \<^verbatim>\<open>os.remove\<close> in the whole sweep is
  the one on the source file; the archive is still there afterwards.
\<close>

theorem cleanup_skips_artifact_counterexample:
  "eligible (minutes 61) (example_job ''/up/a.mp4'' ''a.mp4'' ''video_to_images'' ''10'' 0 False)
   \<and> os_path_exists
        (example_world [(''/up/a.mp4'', Blob 100), (''/tmp/images_A.zip'', Archive [])]
                       [''/up/a.mp4''])
        (artifact_path ''/tmp'' ''A''
           (example_job ''/up/a.mp4'' ''a.mp4'' ''video_to_images'' ''10'' 0 False))
   \<and> remove_calls (snd (cleanup_old_files (minutes 61)
        (example_state
           [(''A'', example_job ''/up/a.mp4'' ''a.mp4'' ''video_to_images'' ''10'' 0 False)])
        (example_world [(''/up/a.mp4'', Blob 100), (''/tmp/images_A.zip'', Archive [])]
                       [''/up/a.mp4''])))
     = [''/up/a.mp4'']
   \<and> os_path_exists
        (snd (cleanup_old_files (minutes 61)
           (example_state
              [(''A'', example_job ''/up/a.mp4'' ''a.mp4'' ''video_to_images'' ''10'' 0 False)])
           (example_world [(''/up/a.mp4'', Blob 100), (''/tmp/images_A.zip'', Archive [])]
                          [''/up/a.mp4''])))
        (artifact_path ''/tmp'' ''A''
           (example_job ''/up/a.mp4'' ''a.mp4'' ''video_to_images'' ''10'' 0 False))"
  by code_simp

subsection \<open>The paths of the artifacts and the names of the frames\<close>


lemma io_return_success:
  "io_return x w = (Inr y, w') \<Longrightarrow> y = x"
  by (simp add: io_return_def)





lemma os_path_join_plain:
  "tmp \<noteq> [] \<Longrightarrow> last tmp \<noteq> CHR ''/'' \<Longrightarrow> name \<noteq> [] \<Longrightarrow> hd name \<noteq> CHR ''/''
     \<Longrightarrow> os_path_join tmp name = tmp @ ''/'' @ name"
  by (simp add: os_path_join_def)



lemma str_nat_nonempty: "0 < length (str_nat n)"
  by (subst str_nat.simps) simp






subsection \<open>execute_tool: other conversion types\<close>

text \<open>
  Claim C9. For a \<^verbatim>\<open>conversion_type\<close> other than \<^verbatim>\<open>video_to_images\<close> and \<^verbatim>\<open>images_to_video\<close>,
  \<^verbatim>\<open>execute_tool\<close> accepts a file of allowed size whatever its name is and stores a job with
  that type, and \<^verbatim>\<open>convert_and_save\<close> runs \<^verbatim>\<open>_images_to_video\<close> on that job.
\<close>

theorem other_conversion_type_unvalidated:
  assumes "ctype \<noteq> ''video_to_images''" and "ctype \<noteq> ''images_to_video''"
    and "in_conversion_type ip = Some ctype"
    and "in_file ip = Some fi" and "fi ''file_path'' = Some p" and "fi ''filename'' = Some name"
    and "getsize p = Inr sz" and "sz \<le> size_limit"
  shows "fst (execute_tool getsize now new_token st ip)
       \<and> (\<exists>job. map_of (pending_conversions (snd (execute_tool getsize now new_token st ip)))
                     new_token = Some job
               \<and> conversion_type job = ctype \<and> filename job = name \<and> \<not> downloaded job
               \<and> (\<forall>ffmpeg_run w.
                     convert_and_save ffmpeg_run new_token
                        (snd (execute_tool getsize now new_token st ip)) w
                     = (case images_to_video ffmpeg_run (temp_dir st) new_token job w of
                          (Inr out, w1) \<Rightarrow>
                             (Some out, snd (execute_tool getsize now new_token st ip), w1)
                        | (Inl e, w1) \<Rightarrow>
                             (None, snd (execute_tool getsize now new_token st ip),
                              w1\<lparr>printed := printed w1 @ [ConversionFailed e]\<rparr>))))"
proof -
  define job where "job = \<lparr> file_path = p, filename = name, conversion_type = ctype,
       fps = get_default (in_fps ip) ''10'', quality = get_default (in_quality ip) ''medium'',
       image_format = get_default (in_image_format ip) ''png'',
       video_format = get_default (in_video_format ip) ''mp4'',
       timestamp = now, downloaded = False \<rparr>"
  define st' where "st' = st\<lparr>pending_conversions := AList.update new_token job (pending_conversions st),
       tool_output := Some (OutputHtml new_token images_to_video_label)\<rparr>"
  have run: "execute_tool getsize now new_token st ip = (True, st')"
    using assms
    by (simp add: execute_tool_def execute_tool_body_def getitem_def Let_def get_default_def
        job_def st'_def)
  have look: "map_of (pending_conversions st') new_token = Some job"
    by (simp add: st'_def update_Some_unfold)
  have fields: "conversion_type job = ctype" "filename job = name" "\<not> downloaded job"
    by (simp_all add: job_def)
  have tmp: "temp_dir st' = temp_dir st"
    by (simp add: st'_def)
  have route: "convert_and_save ffmpeg_run new_token st' w
      = (case images_to_video ffmpeg_run (temp_dir st) new_token job w of
           (Inr out, w1) \<Rightarrow> (Some out, st', w1)
         | (Inl e, w1) \<Rightarrow> (None, st', w1\<lparr>printed := printed w1 @ [ConversionFailed e]\<rparr>))"
    for ffmpeg_run w
    using assms(1) by (simp add: convert_and_save_def look fields tmp)
  show ?thesis
    unfolding run fst_conv snd_conv using look fields route by blast
qed

theorem other_conversion_type_unvalidated_witness:
  "fst (execute_tool (\<lambda>_. Inr 100) 0 ''T1'' (example_state [])
      (example_input ''/up/notes.txt'' ''notes.txt'' (Some ''gif_to_video'') None))
   \<and> map_of (pending_conversions (snd (execute_tool (\<lambda>_. Inr 100) 0 ''T1'' (example_state [])
      (example_input ''/up/notes.txt'' ''notes.txt'' (Some ''gif_to_video'') None)))) ''T1''
      \<noteq> None"
  using other_conversion_type_unvalidated [of "''gif_to_video''"
        "example_input ''/up/notes.txt'' ''notes.txt'' (Some ''gif_to_video'') None"
        "[''file_path'' \<mapsto> ''/up/notes.txt'', ''filename'' \<mapsto> ''notes.txt'']"
        "''/up/notes.txt''" "''notes.txt''" "\<lambda>_. Inr 100" 100 0 "''T1''" "example_state []"]
  by (auto simp add: example_input_def size_limit_def)

subsection \<open>execute_tool: no exception leaves it\<close>

text \<open>
  Claim C10. Whatever is raised inside \<^verbatim>\<open>execute_tool\<close> is caught: the call returns \<^verbatim>\<open>False\<close>
  and sets the error message that carries the exception. This is so for a \<^verbatim>\<open>file_path\<close> whose
  size cannot be read. Every call that returns \<^verbatim>\<open>False\<close> has set a message and stored no job.
\<close>

theorem execute_tool_never_raises:
  "(execute_tool_body getsize now new_token st ip = Inl e \<longrightarrow>
      execute_tool getsize now new_token st ip
        = (False, st\<lparr>error_message := Some (ProcessingError e)\<rparr>))
   \<and> (in_file ip = Some fi \<and> fi ''file_path'' = Some p \<and> fi ''filename'' = Some name
        \<and> getsize p = Inl e' \<longrightarrow>
      execute_tool getsize now new_token st ip
        = (False, st\<lparr>error_message := Some (ProcessingError e')\<rparr>))
   \<and> (\<not> fst (execute_tool getsize now new_token st ip) \<longrightarrow>
        error_message (snd (execute_tool getsize now new_token st ip)) \<noteq> None
        \<and> pending_conversions (snd (execute_tool getsize now new_token st ip))
            = pending_conversions st)"
  by (auto simp: execute_tool_def execute_tool_body_def getitem_def Let_def
      split: sum.splits option.splits)

theorem execute_tool_never_raises_witness:
  "execute_tool_body (\<lambda>p. Inl (FileNotFoundError p)) 0 ''T1'' (example_state [])
      (example_input ''/up/missing.mp4'' ''missing.mp4'' None None)
     = Inl (FileNotFoundError ''/up/missing.mp4'')
   \<and> execute_tool (\<lambda>p. Inl (FileNotFoundError p)) 0 ''T1'' (example_state [])
      (example_input ''/up/missing.mp4'' ''missing.mp4'' None None)
     = (False, (example_state [])\<lparr>error_message :=
                 Some (ProcessingError (FileNotFoundError ''/up/missing.mp4''))\<rparr>)
   \<and> \<not> fst (execute_tool (\<lambda>p. Inl (FileNotFoundError p)) 0 ''T1'' (example_state [])
      (example_input ''/up/missing.mp4'' ''missing.mp4'' None None))
   \<and> error_message (snd (execute_tool (\<lambda>p. Inl (FileNotFoundError p)) 0 ''T1'' (example_state [])
      (example_input ''/up/missing.mp4'' ''missing.mp4'' None None))) \<noteq> None"
proof -
  have body: "execute_tool_body (\<lambda>p. Inl (FileNotFoundError p)) 0 ''T1'' (example_state [])
      (example_input ''/up/missing.mp4'' ''missing.mp4'' None None)
     = Inl (FileNotFoundError ''/up/missing.mp4'')"
    by (simp add: execute_tool_body_def example_input_def getitem_def get_default_def)
  show ?thesis
    using body
      execute_tool_never_raises [of "\<lambda>p. Inl (FileNotFoundError p)" 0 "''T1''" "example_state []"
        "example_input ''/up/missing.mp4'' ''missing.mp4'' None None"
        "FileNotFoundError ''/up/missing.mp4''"
        "[''file_path'' \<mapsto> ''/up/missing.mp4'', ''filename'' \<mapsto> ''missing.mp4'']"
        "''/up/missing.mp4''" "''missing.mp4''" "FileNotFoundError ''/up/missing.mp4''"]
    by (simp add: example_input_def)
qed

subsection \<open>convert_and_save: the downloaded flag\<close>

lemma example_convert_first:
  "fst (convert_and_save example_ffmpeg ''T1''
     (example_state [(''T1'', example_job ''/up/clip.mp4'' ''clip.mp4'' ''video_to_images'' ''10'' 0 False)])
     (example_world [(''/up/clip.mp4'', Blob 100)] []))
   = Some ''/tmp/images_T1.zip''"
  by code_simp

text \<open>
  Claim C1, as the code has it. \<^verbatim>\<open>convert_and_save\<close> never assigns \<^verbatim>\<open>downloaded\<close>: after a call
  that returns a path the tool's state is what it was, the job is still stored with
  \<^verbatim>\<open>downloaded\<close> false, and a further call with the same token is not cut short by the
  flag but runs the conversion of the job again.
\<close>

theorem convert_and_save_leaves_store:
  assumes "convert_and_save ffmpeg_run token st w = (Some out, st', w')"
  shows "st' = st
       \<and> (\<exists>conv. map_of (pending_conversions st') token = Some conv \<and> \<not> downloaded conv
            \<and> (\<forall>engine2 w2.
                  convert_and_save engine2 token st' w2
                  = (case (if conversion_type conv = ''video_to_images''
                           then video_to_images engine2 (temp_dir st') token conv
                           else images_to_video engine2 (temp_dir st') token conv) w2 of
                       (Inr p, w3) \<Rightarrow> (Some p, st', w3)
                     | (Inl e, w3) \<Rightarrow>
                         (None, st', w3\<lparr>printed := printed w3 @ [ConversionFailed e]\<rparr>))))"
proof -
  from assms obtain conv where look: "map_of (pending_conversions st) token = Some conv"
    by (cases "map_of (pending_conversions st) token") (auto simp: convert_and_save_def)
  from assms look have fresh: "\<not> downloaded conv"
    by (auto simp: convert_and_save_def split: if_splits)
  from assms look fresh have same: "st' = st"
    by (auto simp: convert_and_save_def split: if_splits prod.splits sum.splits)
  have again: "convert_and_save engine2 token st w2
                  = (case (if conversion_type conv = ''video_to_images''
                           then video_to_images engine2 (temp_dir st) token conv
                           else images_to_video engine2 (temp_dir st) token conv) w2 of
                       (Inr p, w3) \<Rightarrow> (Some p, st, w3)
                     | (Inl e, w3) \<Rightarrow>
                         (None, st, w3\<lparr>printed := printed w3 @ [ConversionFailed e]\<rparr>))"
    for engine2 w2
    using look fresh by (simp add: convert_and_save_def)
  show ?thesis
    unfolding same using look fresh again by blast
qed

theorem convert_and_save_leaves_store_witness:
  "fst (snd (convert_and_save example_ffmpeg ''T1''
     (example_state [(''T1'', example_job ''/up/clip.mp4'' ''clip.mp4'' ''video_to_images'' ''10'' 0 False)])
     (example_world [(''/up/clip.mp4'', Blob 100)] [])))
   = example_state [(''T1'', example_job ''/up/clip.mp4'' ''clip.mp4'' ''video_to_images'' ''10'' 0 False)]"
proof -
  have run: "convert_and_save example_ffmpeg ''T1''
     (example_state [(''T1'', example_job ''/up/clip.mp4'' ''clip.mp4'' ''video_to_images'' ''10'' 0 False)])
     (example_world [(''/up/clip.mp4'', Blob 100)] [])
    = (Some ''/tmp/images_T1.zip'',
       fst (snd (convert_and_save example_ffmpeg ''T1''
         (example_state [(''T1'', example_job ''/up/clip.mp4'' ''clip.mp4'' ''video_to_images'' ''10'' 0 False)])
         (example_world [(''/up/clip.mp4'', Blob 100)] []))),
       snd (snd (convert_and_save example_ffmpeg ''T1''
         (example_state [(''T1'', example_job ''/up/clip.mp4'' ''clip.mp4'' ''video_to_images'' ''10'' 0 False)])
         (example_world [(''/up/clip.mp4'', Blob 100)] []))))"
    using example_convert_first by (simp add: prod_eq_iff)
  show ?thesis
    using convert_and_save_leaves_store [OF run] by simp
qed

text \<open>
  Claim C1 as stated fails: a first call returns \<^verbatim>\<open>/tmp/images_T1.zip\<close>, the job is stored
  unchanged with \<^verbatim>\<open>downloaded\<close> false, and a second call with the same token returns the
  path again instead of \<^verbatim>\<open>None\<close>.
\<close>

theorem convert_and_save_second_call_counterexample:
  "fst (convert_and_save example_ffmpeg ''T1''
     (example_state [(''T1'', example_job ''/up/clip.mp4'' ''clip.mp4'' ''video_to_images'' ''10'' 0 False)])
     (example_world [(''/up/clip.mp4'', Blob 100)] []))
   = Some ''/tmp/images_T1.zip''
   \<and> map_of (pending_conversions (fst (snd (convert_and_save example_ffmpeg ''T1''
     (example_state [(''T1'', example_job ''/up/clip.mp4'' ''clip.mp4'' ''video_to_images'' ''10'' 0 False)])
     (example_world [(''/up/clip.mp4'', Blob 100)] []))))) ''T1''
   = Some (example_job ''/up/clip.mp4'' ''clip.mp4'' ''video_to_images'' ''10'' 0 False)
   \<and> \<not> downloaded (example_job ''/up/clip.mp4'' ''clip.mp4'' ''video_to_images'' ''10'' 0 False)
   \<and> fst (convert_and_save example_ffmpeg ''T1''
       (fst (snd (convert_and_save example_ffmpeg ''T1''
         (example_state [(''T1'', example_job ''/up/clip.mp4'' ''clip.mp4'' ''video_to_images'' ''10'' 0 False)])
         (example_world [(''/up/clip.mp4'', Blob 100)] []))))
       (snd (snd (convert_and_save example_ffmpeg ''T1''
         (example_state [(''T1'', example_job ''/up/clip.mp4'' ''clip.mp4'' ''video_to_images'' ''10'' 0 False)])
         (example_world [(''/up/clip.mp4'', Blob 100)] [])))))
   = Some ''/tmp/images_T1.zip''"
  by code_simp

subsection \<open>_images_to_video: an archive without images\<close>

lemma extract_images_none:
  "\<forall>m \<in> set ms. \<not> is_image_file (fst m) \<Longrightarrow> extract_images d ms w = (Inr [], w)"
  by (induction ms) (simp_all add: io_return_def)

text \<open>
  Claim C2, as the code has it. For a job whose \<^verbatim>\<open>fps\<close> string is an integer, whose scratch
  directory can be created and whose input archive is readable and has no member with an
  image extension, \<^verbatim>\<open>_images_to_video\<close> raises the exception "Keine Bilddateien in der
  ZIP-Datei gefunden"; only the scratch directory has been created. The exception leaves
  \<^verbatim>\<open>_images_to_video\<close>, and \<^verbatim>\<open>convert_and_save\<close> catches it, prints it and returns \<^verbatim>\<open>None\<close>; the
  tool's state, with the job's \<^verbatim>\<open>downloaded\<close> false, is unchanged.
\<close>

theorem images_to_video_empty_archive:
  assumes "py_int (fps conv) = Inr n"
    and "\<not> is_file w (os_path_join tmp (''extracted_'' @ token))"
    and "map_of (files w) (file_path conv) = Some (Archive ms)"
    and "\<forall>m \<in> set ms. \<not> is_image_file (fst m)"
  shows "images_to_video ffmpeg_run tmp token conv w
           = (Inl EmptyArchive,
              w\<lparr>dirs := List.insert (os_path_join tmp (''extracted_'' @ token)) (dirs w)\<rparr>)
       \<and> (map_of (pending_conversions st) token = Some conv \<and> \<not> downloaded conv
            \<and> conversion_type conv \<noteq> ''video_to_images'' \<and> temp_dir st = tmp \<longrightarrow>
          convert_and_save ffmpeg_run token st w
           = (None, st,
              w\<lparr>dirs := List.insert (os_path_join tmp (''extracted_'' @ token)) (dirs w),
                 printed := printed w @ [ConversionFailed EmptyArchive]\<rparr>))"
proof -
  define d where "d = os_path_join tmp (''extracted_'' @ token)"
  define w1 where "w1 = w\<lparr>dirs := List.insert d (dirs w)\<rparr>"
  have mk: "os_makedirs d w = (Inr (), w1)"
    using assms(2) by (simp add: os_makedirs_def w1_def d_def)
  have rd: "zip_read (file_path conv) w1 = (Inr ms, w1)"
    using assms(3) by (simp add: zip_read_def w1_def)
  have ex: "extract_images d ms w1 = (Inr [], w1)"
    by (rule extract_images_none [OF assms(4)])
  have inner: "extract_and_rename d (file_path conv) w1 = (Inl EmptyArchive, w1)"
    by (simp add: extract_and_rename_def io_bind_def rd ex io_raise_def)
  have run: "images_to_video ffmpeg_run tmp token conv w = (Inl EmptyArchive, w1)"
    unfolding images_to_video_def Let_def d_def [symmetric]
    by (simp add: io_bind_def io_lift_def assms(1) mk inner)
  have caught: "convert_and_save ffmpeg_run token st w
           = (None, st, w1\<lparr>printed := printed w1 @ [ConversionFailed EmptyArchive]\<rparr>)"
    if "map_of (pending_conversions st) token = Some conv" and "\<not> downloaded conv"
      and "conversion_type conv \<noteq> ''video_to_images''" and "temp_dir st = tmp"
    using that by (simp add: convert_and_save_def run)
  have shape: "w1\<lparr>printed := printed w1 @ [ConversionFailed EmptyArchive]\<rparr>
      = w\<lparr>dirs := List.insert d (dirs w), printed := printed w @ [ConversionFailed EmptyArchive]\<rparr>"
    by (simp add: w1_def)
  show ?thesis
    unfolding d_def [symmetric] using run caught shape by (simp add: w1_def)
qed

theorem images_to_video_empty_archive_witness:
  "images_to_video example_ffmpeg ''/tmp'' ''T2''
      (example_job ''/up/f.zip'' ''f.zip'' ''images_to_video'' ''10'' 0 False)
      (example_world [(''/up/f.zip'', Archive [(''readme.txt'', Blob 3)])] [])
     = (Inl EmptyArchive,
        (example_world [(''/up/f.zip'', Archive [(''readme.txt'', Blob 3)])] [])
          \<lparr>dirs := [''/tmp/extracted_T2'', ''/tmp'', ''/up'']\<rparr>)
   \<and> convert_and_save example_ffmpeg ''T2''
      (example_state [(''T2'', example_job ''/up/f.zip'' ''f.zip'' ''images_to_video'' ''10'' 0 False)])
      (example_world [(''/up/f.zip'', Archive [(''readme.txt'', Blob 3)])] [])
     = (None,
        example_state [(''T2'', example_job ''/up/f.zip'' ''f.zip'' ''images_to_video'' ''10'' 0 False)],
        (example_world [(''/up/f.zip'', Archive [(''readme.txt'', Blob 3)])] [])
          \<lparr>dirs := [''/tmp/extracted_T2'', ''/tmp'', ''/up''],
           printed := [ConversionFailed EmptyArchive]\<rparr>)"
proof -
  have a: "py_int (fps (example_job ''/up/f.zip'' ''f.zip'' ''images_to_video'' ''10'' 0 False)) = Inr 10"
    by code_simp
  have b: "\<not> is_file (example_world [(''/up/f.zip'', Archive [(''readme.txt'', Blob 3)])] [])
              (os_path_join ''/tmp'' (''extracted_'' @ ''T2''))"
    by code_simp
  have c: "map_of (files (example_world [(''/up/f.zip'', Archive [(''readme.txt'', Blob 3)])] []))
              (file_path (example_job ''/up/f.zip'' ''f.zip'' ''images_to_video'' ''10'' 0 False))
            = Some (Archive [(''readme.txt'', Blob 3)])"
    by (simp add: example_world_def example_job_def)
  have d: "\<forall>m \<in> set [(''readme.txt'', Blob 3)]. \<not> is_image_file (fst m)"
    by code_simp
  have j: "os_path_join ''/tmp'' (''extracted_'' @ ''T2'') = ''/tmp/extracted_T2''"
    by code_simp
  show ?thesis
    using images_to_video_empty_archive [OF a b c d, of example_ffmpeg
        "example_state [(''T2'', example_job ''/up/f.zip'' ''f.zip'' ''images_to_video'' ''10'' 0 False)]"]
    unfolding j
    by (simp add: example_state_def example_job_def example_world_def)
qed

text \<open>
  Claim C2 as stated fails for a job whose \<^verbatim>\<open>fps\<close> is not a number: \<^verbatim>\<open>execute_tool\<close> stores
  such a job, and \<^verbatim>\<open>_images_to_video\<close> raises the \<^verbatim>\<open>ValueError\<close> of \<^verbatim>\<open>int(...)\<close> before the
  archive is opened, although the archive has no image member.
\<close>

theorem images_to_video_bad_fps_counterexample:
  "pending_conversions (snd (execute_tool (\<lambda>_. Inr 100) 0 ''T2'' (example_state [])
       (example_input ''/up/f.zip'' ''f.zip'' (Some ''images_to_video'') (Some ''abc''))))
     = [(''T2'', example_job ''/up/f.zip'' ''f.zip'' ''images_to_video'' ''abc'' 0 False)]
   \<and> filter (\<lambda>m. is_image_file (fst m)) [(''readme.txt'', Blob 3)] = []
   \<and> fst (images_to_video example_ffmpeg ''/tmp'' ''T2''
        (example_job ''/up/f.zip'' ''f.zip'' ''images_to_video'' ''abc'' 0 False)
        (example_world [(''/up/f.zip'', Archive [(''readme.txt'', Blob 3)])] []))
     = Inl (ValueError ''abc'')
   \<and> fst (images_to_video example_ffmpeg ''/tmp'' ''T2''
        (example_job ''/up/f.zip'' ''f.zip'' ''images_to_video'' ''abc'' 0 False)
        (example_world [(''/up/f.zip'', Archive [(''readme.txt'', Blob 3)])] []))
     \<noteq> Inl EmptyArchive"
proof -
  have zip_name: "is_zip_file ''f.zip''"
    by code_simp
  have stored: "pending_conversions (snd (execute_tool (\<lambda>_. Inr 100) 0 ''T2'' (example_state [])
       (example_input ''/up/f.zip'' ''f.zip'' (Some ''images_to_video'') (Some ''abc''))))
     = [(''T2'', example_job ''/up/f.zip'' ''f.zip'' ''images_to_video'' ''abc'' 0 False)]"
    using zip_name
    by (simp add: execute_tool_def execute_tool_body_def example_input_def example_state_def
        example_job_def getitem_def get_default_def size_limit_def)
  have no_images: "filter (\<lambda>m. is_image_file (fst m)) [(''readme.txt'', Blob 3)] = []"
    by code_simp
  have bad: "py_int ''abc'' = Inl (ValueError ''abc'')"
    by code_simp
  have run: "fst (images_to_video example_ffmpeg ''/tmp'' ''T2''
        (example_job ''/up/f.zip'' ''f.zip'' ''images_to_video'' ''abc'' 0 False)
        (example_world [(''/up/f.zip'', Archive [(''readme.txt'', Blob 3)])] []))
     = Inl (ValueError ''abc'')"
    by (simp add: images_to_video_def Let_def io_bind_def io_lift_def example_job_def bad)
  show ?thesis
    using stored no_images run by (simp add: EmptyArchive_def)
qed

subsection \<open>_images_to_video: the order of the frames\<close>

lemma extract_images_names:
  "extract_images d ms w = (Inr names, w1) \<Longrightarrow> names = filter is_image_file (map fst ms)"
proof (induction ms arbitrary: w names w1)
  case Nil
  then show ?case by (simp add: io_return_def)
next
  case (Cons m ms)
  show ?case
  proof (cases "is_image_file (fst m)")
    case False
    with Cons show ?thesis by simp
  next
    case True
    with Cons.prems obtain u wa rest wb where
      "zip_extract d m w = (Inr u, wa)" and rest: "extract_images d ms wa = (Inr rest, wb)"
      and names: "names = fst m # rest"
      by (auto simp: io_bind_def io_return_def split: prod.splits sum.splits)
    from Cons.IH [OF rest] names True show ?thesis by simp
  qed
qed

lemma zip_read_world: "zip_read z w = (r, w') \<Longrightarrow> w' = w"
  by (auto simp: zip_read_def split: option.splits content.splits if_splits)

lemma image_open_world: "image_open p w = (r, w') \<Longrightarrow> w' = w"
  by (auto simp: image_open_def split: option.splits content.splits if_splits)

lemma extract_and_rename_sorted:
  assumes "extract_and_rename d z w = (Inr (), w')"
  shows "\<exists>ms w1 img. zip_read z w = (Inr ms, w)
           \<and> filter is_image_file (map fst ms) \<noteq> []
           \<and> extract_images d ms w = (Inr (filter is_image_file (map fst ms)), w1)
           \<and> image_open (os_path_join d (hd (sort (filter is_image_file (map fst ms))))) w1
                = (Inr img, w1)
           \<and> canonical_frames d (image_size img) 0 (sort (filter is_image_file (map fst ms))) w1
                = (Inr (), w')"
proof -
  from assms obtain ms wa where rd: "zip_read z w = (Inr ms, wa)"
    and rest: "io_bind (extract_images d ms) (\<lambda>image_files.
       if image_files = [] then io_raise EmptyArchive
       else
         (let sorted_files = sort image_files;
              first_image_path = os_path_join d (hd sorted_files) in
          io_bind (image_open first_image_path) (\<lambda>first_img.
          canonical_frames d (image_size first_img) 0 sorted_files))) wa = (Inr (), w')"
    unfolding extract_and_rename_def by (auto simp: io_bind_def split: prod.splits sum.splits)
  have wa: "wa = w" by (rule zip_read_world [OF rd])
  from rest obtain names w1 where ex: "extract_images d ms w = (Inr names, w1)"
    and after: "(if names = [] then io_raise EmptyArchive
       else
         (let sorted_files = sort names;
              first_image_path = os_path_join d (hd sorted_files) in
          io_bind (image_open first_image_path) (\<lambda>first_img.
          canonical_frames d (image_size first_img) 0 sorted_files))) w1 = (Inr (), w')"
    unfolding wa by (auto simp: io_bind_def split: prod.splits sum.splits)
  have names: "names = filter is_image_file (map fst ms)"
    by (rule extract_images_names [OF ex])
  from after have ne: "names \<noteq> []"
    by (auto simp: io_raise_def)
  with after obtain img wb where op: "image_open (os_path_join d (hd (sort names))) w1 = (Inr img, wb)"
    and loop: "canonical_frames d (image_size img) 0 (sort names) wb = (Inr (), w')"
    by (auto simp: io_bind_def Let_def split: prod.splits sum.splits)
  have wb: "wb = w1" by (rule image_open_world [OF op])
  show ?thesis
    using rd ex op loop ne unfolding wa wb names by blast
qed

lemma example_names:
  "is_image_file ''a.png''" "is_image_file ''b.png''"
  "arc_components ''a.png'' = [''a.png'']" "arc_components ''b.png'' = [''b.png'']"
  "sort [''b.png'', ''a.png''] = [''a.png'', ''b.png'']"
  "frame_name 0 = ''frame_0000.png''" "frame_name (Suc 0) = ''frame_0001.png''"
  "os_path_join ''/tmp/extracted_T'' ''a.png'' = ''/tmp/extracted_T/a.png''"
  "os_path_join ''/tmp/extracted_T'' ''b.png'' = ''/tmp/extracted_T/b.png''"
  "os_path_join ''/tmp/extracted_T'' ''frame_0000.png'' = ''/tmp/extracted_T/frame_0000.png''"
  "os_path_join ''/tmp/extracted_T'' ''frame_0001.png'' = ''/tmp/extracted_T/frame_0001.png''"
  by code_simp+

lemma example_frames:
  "extract_and_rename ''/tmp/extracted_T'' ''/up/f.zip''
      (example_world [(''/up/f.zip'', Archive [(''b.png'', Picture ib), (''a.png'', Picture ia)])] [])
   = (Inr (),
      \<lparr> files = [(''/up/f.zip'', Archive [(''b.png'', Picture ib), (''a.png'', Picture ia)]),
                 (''/tmp/extracted_T/frame_0000.png'', Picture (ConvertedRGB ia)),
                 (''/tmp/extracted_T/frame_0001.png'',
                    Picture (ConvertedRGB (if image_size ib \<noteq> image_size ia
                       then Resized (fst (image_size ia)) (snd (image_size ia)) ib else ib)))],
        dirs = [''/tmp'', ''/up''], undeletable = [],
        remove_calls = [''/tmp/extracted_T/a.png'', ''/tmp/extracted_T/b.png''],
        printed = [] \<rparr>)"
  by (simp add: extract_and_rename_def io_bind_def zip_read_def example_world_def example_names
      zip_extract_def Let_def is_file_def is_dir_def image_open_def image_save_def os_remove_def
      io_return_def io_raise_def)

text \<open>
  Claim C7. When the extraction and renaming of lines 165 to 192 succeed, the renaming loop
  has run over the sorted list of the image names of the archive, which were collected in
  archive order. For the archive with the members \<^verbatim>\<open>b.png\<close> and \<^verbatim>\<open>a.png\<close>, in this order
  and with any two pictures, \<^verbatim>\<open>frame_0000.png\<close> is the picture of \<^verbatim>\<open>a.png\<close> (converted to RGB)
  and \<^verbatim>\<open>frame_0001.png\<close> is the picture of \<^verbatim>\<open>b.png\<close> (resized to the first one's size if it
  differs, and converted).
\<close>

theorem frames_follow_sorted_names:
  "(extract_and_rename d z w = (Inr (), w') \<longrightarrow>
      (\<exists>ms w1 img. zip_read z w = (Inr ms, w)
           \<and> filter is_image_file (map fst ms) \<noteq> []
           \<and> extract_images d ms w = (Inr (filter is_image_file (map fst ms)), w1)
           \<and> image_open (os_path_join d (hd (sort (filter is_image_file (map fst ms))))) w1
                = (Inr img, w1)
           \<and> canonical_frames d (image_size img) 0 (sort (filter is_image_file (map fst ms))) w1
                = (Inr (), w')
           \<and> sorted (sort (filter is_image_file (map fst ms)))))
   \<and> sort [''b.png'', ''a.png''] = [''a.png'', ''b.png'']
   \<and> fst (extract_and_rename ''/tmp/extracted_T'' ''/up/f.zip''
        (example_world
           [(''/up/f.zip'', Archive [(''b.png'', Picture ib), (''a.png'', Picture ia)])] []))
      = Inr ()
   \<and> map_of (files (snd (extract_and_rename ''/tmp/extracted_T'' ''/up/f.zip''
        (example_world
           [(''/up/f.zip'', Archive [(''b.png'', Picture ib), (''a.png'', Picture ia)])] []))))
        ''/tmp/extracted_T/frame_0000.png''
      = Some (Picture (ConvertedRGB ia))
   \<and> map_of (files (snd (extract_and_rename ''/tmp/extracted_T'' ''/up/f.zip''
        (example_world
           [(''/up/f.zip'', Archive [(''b.png'', Picture ib), (''a.png'', Picture ia)])] []))))
        ''/tmp/extracted_T/frame_0001.png''
      = Some (Picture (ConvertedRGB (if image_size ib \<noteq> image_size ia
                then Resized (fst (image_size ia)) (snd (image_size ia)) ib else ib)))"
proof (intro conjI impI)
  assume "extract_and_rename d z w = (Inr (), w')"
  from extract_and_rename_sorted [OF this]
  show "\<exists>ms w1 img. zip_read z w = (Inr ms, w)
           \<and> filter is_image_file (map fst ms) \<noteq> []
           \<and> extract_images d ms w = (Inr (filter is_image_file (map fst ms)), w1)
           \<and> image_open (os_path_join d (hd (sort (filter is_image_file (map fst ms))))) w1
                = (Inr img, w1)
           \<and> canonical_frames d (image_size img) 0 (sort (filter is_image_file (map fst ms))) w1
                = (Inr (), w')
           \<and> sorted (sort (filter is_image_file (map fst ms)))"
    by (simp only: sorted_sort simp_thms)
next
  show "sort [''b.png'', ''a.png''] = [''a.png'', ''b.png'']"
    by (rule example_names)
qed (simp_all add: example_frames)

theorem frames_follow_sorted_names_witness:
  "extract_and_rename ''/tmp/extracted_T'' ''/up/f.zip''
      (example_world [(''/up/f.zip'',
         Archive [(''b.png'', Picture (Pixels 2 2 7)), (''a.png'', Picture (Pixels 3 3 8))])] [])
   = (Inr (),
      \<lparr> files = [(''/up/f.zip'',
                   Archive [(''b.png'', Picture (Pixels 2 2 7)), (''a.png'', Picture (Pixels 3 3 8))]),
                 (''/tmp/extracted_T/frame_0000.png'', Picture (ConvertedRGB (Pixels 3 3 8))),
                 (''/tmp/extracted_T/frame_0001.png'',
                    Picture (ConvertedRGB (Resized 3 3 (Pixels 2 2 7))))],
        dirs = [''/tmp'', ''/up''], undeletable = [],
        remove_calls = [''/tmp/extracted_T/a.png'', ''/tmp/extracted_T/b.png''],
        printed = [] \<rparr>)
   \<and> (\<exists>ms. zip_read ''/up/f.zip''
        (example_world [(''/up/f.zip'',
           Archive [(''b.png'', Picture (Pixels 2 2 7)), (''a.png'', Picture (Pixels 3 3 8))])] [])
        = (Inr ms, example_world [(''/up/f.zip'',
           Archive [(''b.png'', Picture (Pixels 2 2 7)), (''a.png'', Picture (Pixels 3 3 8))])] [])
      \<and> filter is_image_file (map fst ms) \<noteq> [])"
proof -
  have run: "extract_and_rename ''/tmp/extracted_T'' ''/up/f.zip''
      (example_world [(''/up/f.zip'',
         Archive [(''b.png'', Picture (Pixels 2 2 7)), (''a.png'', Picture (Pixels 3 3 8))])] [])
   = (Inr (),
      \<lparr> files = [(''/up/f.zip'',
                   Archive [(''b.png'', Picture (Pixels 2 2 7)), (''a.png'', Picture (Pixels 3 3 8))]),
                 (''/tmp/extracted_T/frame_0000.png'', Picture (ConvertedRGB (Pixels 3 3 8))),
                 (''/tmp/extracted_T/frame_0001.png'',
                    Picture (ConvertedRGB (Resized 3 3 (Pixels 2 2 7))))],
        dirs = [''/tmp'', ''/up''], undeletable = [],
        remove_calls = [''/tmp/extracted_T/a.png'', ''/tmp/extracted_T/b.png''],
        printed = [] \<rparr>)"
    using example_frames [of "Pixels 2 2 7" "Pixels 3 3 8"] by simp
  from frames_follow_sorted_names [THEN conjunct1, rule_format, OF run]
  obtain ms where "zip_read ''/up/f.zip''
        (example_world [(''/up/f.zip'',
           Archive [(''b.png'', Picture (Pixels 2 2 7)), (''a.png'', Picture (Pixels 3 3 8))])] [])
        = (Inr ms, example_world [(''/up/f.zip'',
           Archive [(''b.png'', Picture (Pixels 2 2 7)), (''a.png'', Picture (Pixels 3 3 8))])] [])"
     and "filter is_image_file (map fst ms) \<noteq> []"
    by blast
  with run show ?thesis by blast
qed

end
